theory Spec2Isabelle
  imports Main "HOL-Library.Word" "HOL-Library.Multiset"
begin

section \<open>Streams, fields and field sets\<close>

text \<open>
  The TrueType parser of \<^verbatim>\<open>hachoir_parser/misc/ttf.py\<close> and the fragment group of
  \<^verbatim>\<open>hachoir/field/fragment.py\<close> run on the field-tree engine of the repository
  (\<^verbatim>\<open>FieldSet\<close>, \<^verbatim>\<open>seekByte\<close>, \<^verbatim>\<open>self[name].value\<close>, \<^verbatim>\<open>self.error\<close>), whose code
  is not among the sources. The engine is modelled from the specification, each such
  definition marked; the parsers themselves are translated from their code.

  A producer routine (a Python generator) is a function from the input stream to the
  field set it has produced when it stops, with the exception that stopped it, if any.
  Decoded integers are unsigned, so they are natural numbers; every subtraction of the
  source is guarded by the comparison the source makes.
\<close>

type_synonym byte = "8 word"
type_synonym stream = "byte list"

datatype error =
    ParserError string
  | SeekError
  | BoundsError
  | MissingField string

text \<open>
  The class of a field. A \<^verbatim>\<open>String\<close> carries the charset it was given, if any;
  descriptions and display handlers decide nothing and are left out.
\<close>

datatype kind =
    UInt16 | UInt32 | String "string option" | Bytes | RawBytes | Bit | Bits | NullBits
  | TimestampMac32 | Padding | Null | TableHeader | NameHeader | Table

text \<open>A directory record of the font file: the decoded values of a \<^verbatim>\<open>TableHeader\<close>.\<close>

record table_header =
  th_tag :: "byte list"
  th_checksum :: nat
  th_offset :: nat
  th_size :: nat

text \<open>
  A field has a name, a class and a length in bits; a \<^verbatim>\<open>Table\<close> also keeps the directory
  record it was built from (\<^verbatim>\<open>self.table\<close>).
\<close>

record field =
  name :: string
  kind :: kind
  size_bits :: nat
  table :: "table_header option"

definition mk_field :: "kind \<Rightarrow> string \<Rightarrow> nat \<Rightarrow> field" where
  "mk_field k n b = \<lparr>name = n, kind = k, size_bits = b, table = None\<rparr>"

text \<open>The \<^verbatim>\<open>%u\<close> conversion of a non-negative integer: its decimal digits.\<close>

definition digit_char :: "nat \<Rightarrow> char" where
  "digit_char d = ''0123456789'' ! d"

fun str_nat :: "nat \<Rightarrow> string" where
  "str_nat n = (if n < 10 then [digit_char n] else str_nat (n div 10) @ [digit_char (n mod 10)])"

declare str_nat.simps [simp del]

text \<open>
  Modelled from the spec: the field set under production. It holds the children produced
  so far in order, the bit cursor (\<^verbatim>\<open>current_size\<close>, the sum of the children's bit
  lengths) and the diagnostic sink that \<^verbatim>\<open>self.error\<close> reports recoverable anomalies to.
\<close>

record fieldset =
  children :: "field list"
  current_size :: nat
  log :: "string list"

definition empty_fieldset :: fieldset where
  "empty_fieldset = \<lparr>children = [], current_size = 0, log = []\<rparr>"

text \<open>
  Modelled from the spec: a name given as \<^verbatim>\<open>role[]\<close> gets an implicit sequence suffix,
  the number of earlier children of that role.
\<close>

definition unique_name :: "field list \<Rightarrow> string \<Rightarrow> string" where
  "unique_name fs n =
     (if 2 \<le> length n \<and> drop (length n - 2) n = ''[]''
      then let key = take (length n - 2) n
           in key @ ''['' @
              str_nat (length (filter (\<lambda>f. take (length key + 1) (name f) = key @ ''['') fs)) @
              '']''
      else n)"

text \<open>
  Modelled from the spec: \<^verbatim>\<open>yield\<close> hands one child to the field set, which appends it
  and advances the cursor by the child's bit length.
\<close>

definition yield :: "field \<Rightarrow> fieldset \<Rightarrow> fieldset" where
  "yield f st =
     st\<lparr>children := children st @ [f\<lparr>name := unique_name (children st) (name f)\<rparr>],
        current_size := current_size st + size_bits f\<rparr>"

fun yields :: "field list \<Rightarrow> fieldset \<Rightarrow> fieldset" where
  "yields [] st = st"
| "yields (f # fs) st = yields fs (yield f st)"

text \<open>Modelled from the spec: \<^verbatim>\<open>self.error(message)\<close> reports an anomaly and returns.\<close>

definition report :: "string \<Rightarrow> fieldset \<Rightarrow> fieldset" where
  "report msg st = st\<lparr>log := log st @ [msg]\<rparr>"

text \<open>
  Modelled from the spec: \<^verbatim>\<open>seek(target, relative, fillWithZero)\<close> fails if the target is
  behind the cursor, gives one padding field spanning the gap if it is ahead, and no
  field if the cursor is already there. The target is relative to the start of the field
  set, as in both calls of the source. \<^verbatim>\<open>seekByte\<close> is the same with a byte address.
\<close>

definition seekBit :: "fieldset \<Rightarrow> nat \<Rightarrow> bool \<Rightarrow> error + field option" where
  "seekBit st address null =
     (if address < current_size st then Inl SeekError
      else if current_size st < address
        then Inr (Some (mk_field (if null then Null else Padding) ''padding[]''
                          (address - current_size st)))
      else Inr None)"

definition seekByte :: "fieldset \<Rightarrow> nat \<Rightarrow> bool \<Rightarrow> error + field option" where
  "seekByte st address null = seekBit st (address * 8) null"

text \<open>
  Modelled from the spec: reading \<open>n\<close> bytes at byte address \<open>a\<close> of an immutable stream
  fails with a bounds error past the end. Every value the parsers read is byte aligned.
\<close>

definition readBytes :: "stream \<Rightarrow> nat \<Rightarrow> nat \<Rightarrow> error + byte list" where
  "readBytes s a n = (if a + n \<le> length s then Inr (take n (drop a s)) else Inl BoundsError)"

text \<open>The big-endian unsigned value of a byte string (the parser declares \<^verbatim>\<open>BIG_ENDIAN\<close>).\<close>

definition be_nat :: "byte list \<Rightarrow> nat" where
  "be_nat bs = foldl (\<lambda>acc b. acc * 256 + unat b) 0 bs"

text \<open>
  Modelled from the spec: \<^verbatim>\<open>self[name]\<close> finds the child of that name among the children
  produced, at the bit address that is the sum of the sizes before it; \<^verbatim>\<open>.value\<close> decodes it
  from the stream at that address.
\<close>

fun field_address :: "field list \<Rightarrow> string \<Rightarrow> nat \<Rightarrow> (nat \<times> field) option" where
  "field_address [] n a = None"
| "field_address (f # fs) n a =
     (if name f = n then Some (a, f) else field_address fs n (a + size_bits f))"

definition bytes_value :: "stream \<Rightarrow> field list \<Rightarrow> string \<Rightarrow> error + byte list" where
  "bytes_value s fs n =
     (case field_address fs n 0 of
        None \<Rightarrow> Inl (MissingField n)
      | Some (a, f) \<Rightarrow> readBytes s (a div 8) (size_bits f div 8))"

definition uint_value :: "stream \<Rightarrow> field list \<Rightarrow> string \<Rightarrow> error + nat" where
  "uint_value s fs n =
     (case bytes_value s fs n of Inl e \<Rightarrow> Inl e | Inr bs \<Rightarrow> Inr (be_nat bs))"

section \<open>The TrueType root parser\<close>

definition MIN_NB_TABLE :: nat where "MIN_NB_TABLE = 3"
definition MAX_NB_TABLE :: nat where "MAX_NB_TABLE = 30"

text \<open>The six fields that \<^verbatim>\<open>TrueTypeFontFile.createFields\<close> yields before it reads a value.\<close>

definition header_fields :: "field list" where
  "header_fields =
     [mk_field UInt16 ''maj_ver'' 16, mk_field UInt16 ''min_ver'' 16,
      mk_field UInt16 ''nb_table'' 16, mk_field UInt16 ''search_range'' 16,
      mk_field UInt16 ''entry_selector'' 16, mk_field UInt16 ''range_shift'' 16]"

text \<open>\<^verbatim>\<open>validate\<close> returns \<^verbatim>\<open>True\<close> or a diagnostic string.\<close>

datatype validation = Valid | Invalid string

definition validate :: "stream \<Rightarrow> error + validation" where
  "validate s =
     (case uint_value s header_fields ''maj_ver'' of
        Inl e \<Rightarrow> Inl e
      | Inr maj_ver \<Rightarrow>
          if maj_ver \<noteq> 1
          then Inr (Invalid (''Invalid major version ('' @ str_nat maj_ver @ '')''))
          else
            (case uint_value s header_fields ''min_ver'' of
               Inl e \<Rightarrow> Inl e
             | Inr min_ver \<Rightarrow>
                 if min_ver \<noteq> 0
                 then Inr (Invalid (''Invalid minor version ('' @ str_nat min_ver @ '')''))
                 else
                   (case uint_value s header_fields ''nb_table'' of
                      Inl e \<Rightarrow> Inl e
                    | Inr nb_table \<Rightarrow>
                        if \<not> (MIN_NB_TABLE \<le> nb_table \<and> nb_table \<le> MAX_NB_TABLE)
                        then Inr (Invalid (''Invalid number of table ('' @ str_nat nb_table @ '')''))
                        else Inr Valid)))"


text \<open>
  \<^verbatim>\<open>TableHeader.createFields\<close>: tag, checksum, offset and size, sixteen bytes. The stream
  given is the record's own, the file from the record's address on. The four values are
  decoded when the record is produced (the source decodes each at its first access; for a
  record that lies within the stream the two agree).
\<close>

definition TableHeader_fields :: "field list" where
  "TableHeader_fields =
     [mk_field (String None) ''tag'' 32, mk_field UInt32 ''checksum'' 32,
      mk_field UInt32 ''offset'' 32, mk_field UInt32 ''size'' 32]"

definition TableHeader_read :: "stream \<Rightarrow> error + table_header" where
  "TableHeader_read s =
     (case bytes_value s TableHeader_fields ''tag'' of
        Inl e \<Rightarrow> Inl e
      | Inr tag \<Rightarrow>
     (case uint_value s TableHeader_fields ''checksum'' of
        Inl e \<Rightarrow> Inl e
      | Inr checksum \<Rightarrow>
     (case uint_value s TableHeader_fields ''offset'' of
        Inl e \<Rightarrow> Inl e
      | Inr offset \<Rightarrow>
     (case uint_value s TableHeader_fields ''size'' of
        Inl e \<Rightarrow> Inl e
      | Inr sz \<Rightarrow>
          Inr \<lparr>th_tag = tag, th_checksum = checksum, th_offset = offset, th_size = sz\<rparr>))))"

text \<open>The sub-parsers that \<^verbatim>\<open>Table.TAG_INFO\<close> names, and the table itself.\<close>

datatype subparser = FontHeader | Names

definition ascii :: "string \<Rightarrow> byte list" where
  "ascii cs = map of_char cs"

definition TAG_INFO :: "byte list \<Rightarrow> (string \<times> string \<times> subparser) option" where
  "TAG_INFO tag =
     (if tag = ascii ''head'' then Some (''header'', ''Font header'', FontHeader)
      else if tag = ascii ''name'' then Some (''names'', ''Names'', Names)
      else None)"

text \<open>
  \<^verbatim>\<open>Table.__init__\<close>: a table of a known tag takes the name of its entry in \<^verbatim>\<open>TAG_INFO\<close>,
  any other keeps the name it was given.
\<close>

definition Table_init :: "string \<Rightarrow> table_header \<Rightarrow> nat \<Rightarrow> field" where
  "Table_init n t sz =
     \<lparr>name = (case TAG_INFO (th_tag t) of Some (n', d, p) \<Rightarrow> n' | None \<Rightarrow> n),
      kind = Table, size_bits = sz, table = Some t\<rparr>"

definition Table_parser :: "field \<Rightarrow> subparser option" where
  "Table_parser f =
     (case table f of
        None \<Rightarrow> None
      | Some t \<Rightarrow> (case TAG_INFO (th_tag t) of Some (n', d, p) \<Rightarrow> Some p | None \<Rightarrow> None))"

text \<open>
  The first loop of \<^verbatim>\<open>TrueTypeFontFile.createFields\<close>: \<open>n\<close> directory records are produced
  in file order, each yielded and appended to \<^verbatim>\<open>tables\<close>.
\<close>

fun read_tables ::
  "stream \<Rightarrow> nat \<Rightarrow> fieldset \<Rightarrow> table_header list \<Rightarrow> fieldset \<times> (error + table_header list)"
where
  "read_tables s 0 st tables = (st, Inr tables)"
| "read_tables s (Suc n) st tables =
     (case TableHeader_read (drop (current_size st div 8) s) of
        Inl e \<Rightarrow> (st, Inl e)
      | Inr t \<Rightarrow> read_tables s n (yield (mk_field TableHeader ''table_hdr[]'' 128) st) (tables @ [t]))"



text \<open>
  \<^verbatim>\<open>TrueTypeFontFile.createFields\<close>, in two parts. The first reads the directory: the six
  header fields, then as many records as \<^verbatim>\<open>nb_table\<close> says. The second sorts the records
  by their offset (\<^verbatim>\<open>tables.sort(key=...)\<close> is Python's stable sort, as \<open>sort_key\<close> is),
  runs the second loop over them in that order, and pads to the end of the stream
  (\<^verbatim>\<open>self.size\<close> of the root is the size of the stream in bits).
\<close>

definition read_directory :: "stream \<Rightarrow> fieldset \<times> (error + table_header list)" where
  "read_directory s =
     (let st = yields header_fields empty_fieldset in
      case uint_value s header_fields ''nb_table'' of
        Inl e \<Rightarrow> (st, Inl e)
      | Inr nb_table \<Rightarrow> read_tables s nb_table st [])"



section \<open>The font-header table\<close>

definition font_header_magic :: "byte list" where
  "font_header_magic = [0x5F, 0x0F, 0x3C, 0xF5]"

definition font_header_fields1 :: "field list" where
  "font_header_fields1 =
     [mk_field UInt16 ''maj_ver'' 16, mk_field UInt16 ''min_ver'' 16,
      mk_field UInt16 ''font_maj_ver'' 16, mk_field UInt16 ''font_min_ver'' 16,
      mk_field UInt32 ''checksum'' 32, mk_field Bytes ''magic'' 32]"

definition font_header_fields2 :: "field list" where
  "font_header_fields2 =
     [mk_field Bit ''y0'' 1, mk_field Bit ''x0'' 1, mk_field Bit ''instr_point'' 1,
      mk_field Bit ''ppem'' 1, mk_field Bit ''instr_width'' 1, mk_field Bit ''vertical'' 1,
      mk_field NullBits ''reserved[]'' 1, mk_field Bit ''linguistic'' 1, mk_field Bit ''gx'' 1,
      mk_field Bit ''strong'' 1, mk_field Bit ''indic'' 1, mk_field Bit ''lossless'' 1,
      mk_field Bit ''converted'' 1, mk_field Bit ''cleartype'' 1, mk_field Bits ''adobe'' 2,
      mk_field UInt16 ''unit_per_em'' 16]"

definition font_header_fields3 :: "field list" where
  "font_header_fields3 =
     [mk_field UInt32 ''created_high'' 32, mk_field TimestampMac32 ''created'' 32,
      mk_field UInt32 ''modified_high'' 32, mk_field TimestampMac32 ''modified'' 32,
      mk_field UInt16 ''xmin'' 16, mk_field UInt16 ''ymin'' 16,
      mk_field UInt16 ''xmax'' 16, mk_field UInt16 ''ymax'' 16,
      mk_field Bit ''bold'' 1, mk_field Bit ''italic'' 1, mk_field Bit ''underline'' 1,
      mk_field Bit ''outline'' 1, mk_field Bit ''shadow'' 1, mk_field Bit ''condensed'' 1,
      mk_field Bit ''extensed'' 1, mk_field NullBits ''reserved[]'' 9,
      mk_field UInt16 ''lowest'' 16, mk_field UInt16 ''font_dir'' 16,
      mk_field UInt16 ''ofst_format'' 16, mk_field UInt16 ''glyph_format'' 16]"

text \<open>
  \<^verbatim>\<open>parseFontHeader\<close>, on the stream of its table: three runs of yields, with a check of
  the value just yielded after the first and after the second.
\<close>

definition parseFontHeader :: "stream \<Rightarrow> fieldset \<times> error option" where
  "parseFontHeader s =
     (let st = yields font_header_fields1 empty_fieldset in
      case bytes_value s font_header_fields1 ''magic'' of
        Inl e \<Rightarrow> (st, Some e)
      | Inr magic \<Rightarrow>
          if magic \<noteq> font_header_magic
          then (st, Some (ParserError ''TTF: invalid magic of font header''))
          else
            let st = yields font_header_fields2 st in
            (case uint_value s (font_header_fields1 @ font_header_fields2) ''unit_per_em'' of
               Inl e \<Rightarrow> (st, Some e)
             | Inr unit_per_em \<Rightarrow>
                 if \<not> (16 \<le> unit_per_em \<and> unit_per_em \<le> 16384)
                 then (st, Some (ParserError ''TTF: Invalid unit/em value''))
                 else (yields font_header_fields3 st, None)))"

section \<open>The name table\<close>

text \<open>An index record of the name table: the name it got and its six decoded values.\<close>

record name_header =
  nh_name :: string
  platformID :: nat
  encodingID :: nat
  languageID :: nat
  nameID :: nat
  nh_length :: nat
  nh_offset :: nat

definition NameHeader_fields :: "field list" where
  "NameHeader_fields =
     [mk_field UInt16 ''platformID'' 16, mk_field UInt16 ''encodingID'' 16,
      mk_field UInt16 ''languageID'' 16, mk_field UInt16 ''nameID'' 16,
      mk_field UInt16 ''length'' 16, mk_field UInt16 ''offset'' 16]"

definition NameHeader_read :: "string \<Rightarrow> stream \<Rightarrow> error + name_header" where
  "NameHeader_read n s =
     (case uint_value s NameHeader_fields ''platformID'' of
        Inl e \<Rightarrow> Inl e
      | Inr p \<Rightarrow>
     (case uint_value s NameHeader_fields ''encodingID'' of
        Inl e \<Rightarrow> Inl e
      | Inr enc \<Rightarrow>
     (case uint_value s NameHeader_fields ''languageID'' of
        Inl e \<Rightarrow> Inl e
      | Inr lang \<Rightarrow>
     (case uint_value s NameHeader_fields ''nameID'' of
        Inl e \<Rightarrow> Inl e
      | Inr nid \<Rightarrow>
     (case uint_value s NameHeader_fields ''length'' of
        Inl e \<Rightarrow> Inl e
      | Inr len \<Rightarrow>
     (case uint_value s NameHeader_fields ''offset'' of
        Inl e \<Rightarrow> Inl e
      | Inr off \<Rightarrow>
          Inr \<lparr>nh_name = n, platformID = p, encodingID = enc, languageID = lang,
               nameID = nid, nh_length = len, nh_offset = off\<rparr>))))))"

definition getCharset :: "name_header \<Rightarrow> string" where
  "getCharset entry =
     (if platformID entry = 3 \<and> encodingID entry = 1 then ''UTF-16-BE'' else ''ASCII'')"

definition names_header_fields :: "field list" where
  "names_header_fields =
     [mk_field UInt16 ''format'' 16, mk_field UInt16 ''count'' 16, mk_field UInt16 ''offset'' 16]"

text \<open>The first loop of \<^verbatim>\<open>parseNames\<close>: \<open>n\<close> index records in file order.\<close>

fun read_entries ::
  "stream \<Rightarrow> nat \<Rightarrow> fieldset \<Rightarrow> name_header list \<Rightarrow> fieldset \<times> (error + name_header list)"
where
  "read_entries s 0 st entries = (st, Inr entries)"
| "read_entries s (Suc n) st entries =
     (case NameHeader_read (unique_name (children st) ''header[]'')
             (drop (current_size st div 8) s) of
        Inl e \<Rightarrow> (st, Inl e)
      | Inr entry \<Rightarrow>
          read_entries s n (yield (mk_field NameHeader ''header[]'' 96) st) (entries @ [entry]))"

text \<open>Python's \<^verbatim>\<open>str\<close> of a pair of integers, as \<^verbatim>\<open>%s\<close> prints the tuple \<^verbatim>\<open>new\<close>.\<close>

definition str_pair :: "nat \<times> nat \<Rightarrow> string" where
  "str_pair p = ''('' @ str_nat (fst p) @ '', '' @ str_nat (snd p) @ '')''"

text \<open>
  The body of the second loop of \<^verbatim>\<open>parseNames\<close>, for one record, on the pair of the
  variable \<^verbatim>\<open>last\<close> and the field set. A \<^verbatim>\<open>continue\<close> ends the body with no exception.
  A tuple is never false in Python, so \<^verbatim>\<open>last and last == new\<close> holds exactly when
  \<^verbatim>\<open>last\<close> is not \<^verbatim>\<open>None\<close> and equals \<^verbatim>\<open>new\<close>.
\<close>

definition read_value ::
  "stream \<Rightarrow> name_header \<Rightarrow> (nat \<times> nat) option \<times> fieldset \<Rightarrow>
     ((nat \<times> nat) option \<times> fieldset) \<times> error option"
where
  "read_value s entry ls =
     (let last = fst ls; st = snd ls;
          new = (nh_offset entry, nh_length entry)
      in
      if last \<noteq> None \<and> last = Some new
      then ((last, report (''Skip duplicate '' @ nh_name entry @ '' '' @ str_pair new) st), None)
      else
        let last = Some (nh_offset entry, nh_length entry) in
        (case uint_value s names_header_fields ''offset'' of
           Inl e \<Rightarrow> ((last, st), Some e)
         | Inr base \<Rightarrow>
             let offset = nh_offset entry + base in
             if offset < current_size st div 8
             then ((last, report (''Skip value '' @ nh_name entry @ '' (negative offset)'') st),
                   None)
             else
               (case seekByte st offset False of
                  Inl e \<Rightarrow> ((last, st), Some e)
                | Inr padding \<Rightarrow>
                    let st1 = (case padding of Some p \<Rightarrow> yield p st | None \<Rightarrow> st);
                        sz = nh_length entry;
                        st2 = (if sz \<noteq> 0
                               then yield (mk_field (String (Some (getCharset entry)))
                                             ''value[]'' (sz * 8)) st1
                               else st1)
                    in ((last, st2), None))))"

fun read_values ::
  "stream \<Rightarrow> name_header list \<Rightarrow> (nat \<times> nat) option \<times> fieldset \<Rightarrow>
     ((nat \<times> nat) option \<times> fieldset) \<times> error option"
where
  "read_values s [] ls = (ls, None)"
| "read_values s (entry # entries) ls =
     (case read_value s entry ls of
        (ls', Some e) \<Rightarrow> (ls', Some e)
      | (ls', None) \<Rightarrow> read_values s entries ls')"

text \<open>\<^verbatim>\<open>parseNames\<close>, on the stream of its table.\<close>

definition parseNames :: "stream \<Rightarrow> fieldset \<times> error option" where
  "parseNames s =
     (let st = yield (mk_field UInt16 ''format'' 16) empty_fieldset in
      case uint_value s names_header_fields ''format'' of
        Inl e \<Rightarrow> (st, Some e)
      | Inr format \<Rightarrow>
          if format \<noteq> 0
          then (st, Some (ParserError (''TTF (names): Invalid format ('' @ str_nat format @ '')'')))
          else
            let st = yield (mk_field UInt16 ''offset'' 16) (yield (mk_field UInt16 ''count'' 16) st) in
            (case uint_value s names_header_fields ''count'' of
               Inl e \<Rightarrow> (st, Some e)
             | Inr count' \<Rightarrow>
            (case read_entries s count' st [] of
               (st1, Inl e) \<Rightarrow> (st1, Some e)
             | (st1, Inr entries) \<Rightarrow>
            (case read_values s (sort_key nh_offset entries) (None, st1) of
               ((last', st2), r) \<Rightarrow> (st2, r)))))"

text \<open>
  \<^verbatim>\<open>Table.createFields\<close>, on the stream of the table: the fields of the sub-parser, or one
  raw field of the table's bytes. An exception of the sub-parser is the table's.
\<close>

definition Table_createFields :: "stream \<Rightarrow> field \<Rightarrow> fieldset \<times> error option" where
  "Table_createFields s self =
     (case Table_parser self of
        Some FontHeader \<Rightarrow> parseFontHeader s
      | Some Names \<Rightarrow> parseNames s
      | None \<Rightarrow>
          (yield (mk_field RawBytes ''content'' (size_bits self div 8 * 8)) empty_fieldset, None))"


section \<open>Fragment groups\<close>

text \<open>
  A \<^verbatim>\<open>CustomFragment\<close> is a field of some tree: it lies at a byte address of the stream of
  that tree and is \<^verbatim>\<open>field_size\<close> bits long. It refers to its group, and the group lists
  its fragments: the groups live in a store, a list, and a reference is an index into it.
  Python's references do not dangle, so an index beyond the store is no input of the code.
\<close>

record fragment =
  frag_name :: string
  frag_stream :: stream
  frag_address :: nat
  field_size :: nat
  group :: nat

datatype 'p tag = Class 'p | Args "(string \<times> string) list"

record 'p FragmentGroup =
  items :: "fragment list"
  parser :: 'p
  args :: "(string \<times> string) list"

record 'p InputStream =
  data :: "byte list"
  source :: string
  tags :: "(string \<times> 'p tag) list"

definition FragmentGroup_init :: "'p \<Rightarrow> 'p FragmentGroup" where
  "FragmentGroup_init p = \<lparr>items = [], parser = p, args = []\<rparr>"

definition add :: "'p FragmentGroup \<Rightarrow> fragment \<Rightarrow> 'p FragmentGroup" where
  "add g item = g\<lparr>items := items g @ [item]\<rparr>"

text \<open>
  \<^verbatim>\<open>CustomFragment.createFields\<close> yields one raw field of \<^verbatim>\<open>field_size // 8\<close> bytes;
  \<^verbatim>\<open>item["rawdata"].value\<close> reads it from the fragment's own place in its stream.
\<close>

definition CustomFragment_createFields :: "fragment \<Rightarrow> field list" where
  "CustomFragment_createFields self = [mk_field RawBytes ''rawdata'' (field_size self div 8 * 8)]"

definition rawdata_value :: "fragment \<Rightarrow> error + byte list" where
  "rawdata_value item =
     bytes_value (drop (frag_address item) (frag_stream item))
       (CustomFragment_createFields item) ''rawdata''"

text \<open>The loop of \<^verbatim>\<open>createInputStream\<close>, appending each fragment's bytes to \<^verbatim>\<open>data\<close>.\<close>

fun collect :: "fragment list \<Rightarrow> byte list list \<Rightarrow> error + byte list list" where
  "collect [] acc = Inr acc"
| "collect (item # rest) acc =
     (case rawdata_value item of
        Inl e \<Rightarrow> Inl e
      | Inr v \<Rightarrow> collect rest (acc @ [v]))"

definition createInputStream :: "'p FragmentGroup \<Rightarrow> error + 'p InputStream" where
  "createInputStream g =
     (case collect (items g) [] of
        Inl e \<Rightarrow> Inl e
      | Inr parts \<Rightarrow>
          Inr \<lparr>data = concat parts, source = ''<fragment group>'',
               tags = [(''class'', Class (parser g)), (''args'', Args (args g))]\<rparr>)"

text \<open>
  \<^verbatim>\<open>CustomFragment.__init__\<close>: with no group given a new one is made for the parser; the
  fragment then registers itself with its group. A group object is never false in Python,
  so \<^verbatim>\<open>not group\<close> holds for \<^verbatim>\<open>None\<close> only.
\<close>

definition CustomFragment_init ::
  "'p FragmentGroup list \<Rightarrow> stream \<Rightarrow> nat \<Rightarrow> string \<Rightarrow> nat \<Rightarrow> 'p \<Rightarrow> nat option \<Rightarrow>
     'p FragmentGroup list \<times> fragment"
where
  "CustomFragment_init store strm address n sz p grp =
     (let store1 = (case grp of None \<Rightarrow> store @ [FragmentGroup_init p] | Some g \<Rightarrow> store);
          g = (case grp of None \<Rightarrow> length store | Some g \<Rightarrow> g);
          self = \<lparr>frag_name = n, frag_stream = strm, frag_address = address,
                  field_size = sz, group = g\<rparr>
      in (if g < length store1 then store1[g := add (store1 ! g) self] else store1, self))"

section \<open>What a field set shows\<close>

text \<open>
  The class, length and directory record of a field, without its name; the tables among
  a list of fields, each with its length in bits; and the string fields among them.
\<close>

definition shape :: "field \<Rightarrow> kind \<times> nat \<times> table_header option" where
  "shape f = (kind f, size_bits f, table f)"

definition bound_tables :: "field list \<Rightarrow> (table_header \<times> nat) list" where
  "bound_tables fs =
     List.map_filter (\<lambda>f. case table f of Some t \<Rightarrow> Some (t, size_bits f) | None \<Rightarrow> None) fs"



text \<open>The raw bytes of a fragment that lies within its stream.\<close>

definition raw :: "fragment \<Rightarrow> byte list" where
  "raw f = take (field_size f div 8) (drop (frag_address f) (frag_stream f))"

definition in_stream :: "fragment \<Rightarrow> bool" where
  "in_stream f = (frag_address f + field_size f div 8 \<le> length (frag_stream f))"


text \<open>A font file of three tables, whose directory is not in the order of the offsets.\<close>

definition sample_font :: stream where
  "sample_font =
     [0, 1, 0, 0, 0, 3, 0, 0, 0, 0, 0, 0,
      0x67, 0x6C, 0x79, 0x66, 0, 0, 0, 0, 0, 0, 0, 200, 0, 0, 0, 10,
      0x68, 0x65, 0x61, 0x64, 0, 0, 0, 0, 0, 0, 0, 60, 0, 0, 0, 20,
      0x6E, 0x61, 0x6D, 0x65, 0, 0, 0, 0, 0, 0, 0, 120, 0, 0, 0, 0] @ replicate 150 0"



text \<open>
  A name table of two index records that share the pair of offset 0 and length 4; the
  byte given is the base offset of the string block, and eight bytes follow the index.
\<close>

definition sample_names :: "byte \<Rightarrow> stream" where
  "sample_names b =
     [0, 0, 0, 2, 0, b,
      0, 3, 0, 1, 0, 0, 0, 1, 0, 4, 0, 0,
      0, 3, 0, 1, 0, 0, 0, 1, 0, 4, 0, 0] @ replicate 8 0"

definition sample_entry :: "string \<Rightarrow> name_header" where
  "sample_entry n =
     \<lparr>nh_name = n, platformID = 3, encodingID = 1, languageID = 0, nameID = 1,
      nh_length = 4, nh_offset = 0\<rparr>"






section \<open>Reading values\<close>

lemma readBytes_Inr_iff: "readBytes s a n = Inr bs \<longleftrightarrow> a + n \<le> length s \<and> bs = take n (drop a s)"
  by (auto simp: readBytes_def)

lemma readBytes_Inl_iff: "readBytes s a n = Inl e \<longleftrightarrow> length s < a + n \<and> e = BoundsError"
  by (auto simp: readBytes_def)

lemma header_maj_ver:
  "uint_value s header_fields ''maj_ver'' =
     (case readBytes s 0 2 of Inl e \<Rightarrow> Inl e | Inr bs \<Rightarrow> Inr (be_nat bs))"
  by (simp add: uint_value_def bytes_value_def header_fields_def mk_field_def)

lemma header_min_ver:
  "uint_value s header_fields ''min_ver'' =
     (case readBytes s 2 2 of Inl e \<Rightarrow> Inl e | Inr bs \<Rightarrow> Inr (be_nat bs))"
  by (simp add: uint_value_def bytes_value_def header_fields_def mk_field_def)

lemma header_nb_table:
  "uint_value s header_fields ''nb_table'' =
     (case readBytes s 4 2 of Inl e \<Rightarrow> Inl e | Inr bs \<Rightarrow> Inr (be_nat bs))"
  by (simp add: uint_value_def bytes_value_def header_fields_def mk_field_def)

lemma magic_value: "bytes_value s font_header_fields1 ''magic'' = readBytes s 12 4"
  by (simp add: bytes_value_def font_header_fields1_def mk_field_def)

lemma unit_per_em_value:
  "uint_value s (font_header_fields1 @ font_header_fields2) ''unit_per_em'' =
     (case readBytes s 18 2 of Inl e \<Rightarrow> Inl e | Inr bs \<Rightarrow> Inr (be_nat bs))"
  by (simp add: uint_value_def bytes_value_def font_header_fields1_def
      font_header_fields2_def mk_field_def)

section \<open>The structural check of the root parser\<close>

text \<open>
  C3. \<^verbatim>\<open>validate\<close> succeeds exactly when the major version reads 1, the minor version
  reads 0 and the table count reads a value from 3 to 30; and when the three fields can be
  read, it returns the diagnostic of the first check that fails, naming the value, and
  success if none fails.
\<close>

theorem validate_succeeds_iff_and_first_diagnostic:
  "(validate s = Inr Valid \<longleftrightarrow>
      uint_value s header_fields ''maj_ver'' = Inr 1 \<and>
      uint_value s header_fields ''min_ver'' = Inr 0 \<and>
      (\<exists>n. uint_value s header_fields ''nb_table'' = Inr n \<and> 3 \<le> n \<and> n \<le> 30)) \<and>
   (uint_value s header_fields ''maj_ver'' = Inr maj \<and>
    uint_value s header_fields ''min_ver'' = Inr mnr \<and>
    uint_value s header_fields ''nb_table'' = Inr nb \<longrightarrow>
      validate s = Inr
        (if maj \<noteq> 1 then Invalid (''Invalid major version ('' @ str_nat maj @ '')'')
         else if mnr \<noteq> 0 then Invalid (''Invalid minor version ('' @ str_nat mnr @ '')'')
         else if nb < 3 \<or> 30 < nb
           then Invalid (''Invalid number of table ('' @ str_nat nb @ '')'')
         else Valid))"
  by (auto simp: validate_def MIN_NB_TABLE_def MAX_NB_TABLE_def split: sum.splits)

theorem validate_table_count_witness:
  "validate [0, 1, 0, 0, 0, 2] = Inr (Invalid ''Invalid number of table (2)'') \<and>
   validate [0, 1, 0, 0, 0, 31] = Inr (Invalid ''Invalid number of table (31)'') \<and>
   validate [0, 1, 0, 0, 0, 5] = Inr Valid \<and>
   validate [0, 2, 0, 7, 0, 99] = Inr (Invalid ''Invalid major version (2)'')"
  using validate_succeeds_iff_and_first_diagnostic [of "[0, 1, 0, 0, 0, 2]" 1 0 2]
    validate_succeeds_iff_and_first_diagnostic [of "[0, 1, 0, 0, 0, 31]" 1 0 31]
    validate_succeeds_iff_and_first_diagnostic [of "[0, 1, 0, 0, 0, 5]" 1 0 5]
    validate_succeeds_iff_and_first_diagnostic [of "[0, 2, 0, 7, 0, 99]" 2 7 99]
  by (simp add: header_maj_ver header_min_ver header_nb_table readBytes_def be_nat_def
      str_nat.simps digit_char_def)




section \<open>The checks of the font header\<close>

lemma font_header_names1:
  "map name (children (yields font_header_fields1 empty_fieldset)) =
     [''maj_ver'', ''min_ver'', ''font_maj_ver'', ''font_min_ver'', ''checksum'', ''magic'']"
  by (simp add: font_header_fields1_def empty_fieldset_def yield_def unique_name_def mk_field_def)

text \<open>
  C4. \<^verbatim>\<open>parseFontHeader\<close> stops with the error of the magic exactly when the four bytes of
  the magic field can be read and differ from 5F 0F 3C F5. It stops right after that field:
  the fields produced are the six up to the magic. The table whose parser it is stops with
  the same error.
\<close>

theorem parseFontHeader_magic:
  "(snd (parseFontHeader s) = Some (ParserError ''TTF: invalid magic of font header'') \<longleftrightarrow>
      (\<exists>m. bytes_value s font_header_fields1 ''magic'' = Inr m \<and> m \<noteq> [0x5F, 0x0F, 0x3C, 0xF5])) \<and>
   (snd (parseFontHeader s) = Some (ParserError ''TTF: invalid magic of font header'') \<longrightarrow>
      map name (children (fst (parseFontHeader s))) =
        [''maj_ver'', ''min_ver'', ''font_maj_ver'', ''font_min_ver'', ''checksum'', ''magic''] \<and>
      (\<forall>self. Table_parser self = Some FontHeader \<longrightarrow>
         snd (Table_createFields s self) =
           Some (ParserError ''TTF: invalid magic of font header'')))"
  by (auto simp: parseFontHeader_def Let_def magic_value unit_per_em_value readBytes_def
      font_header_magic_def font_header_names1 Table_createFields_def split: sum.splits)

theorem parseFontHeader_magic_witness:
  "snd (parseFontHeader [0, 1, 0, 0, 0, 1, 0, 0, 0, 0, 0, 0, 0x5F, 0x0F, 0x3C, 0xF4, 0, 0, 0, 64]) =
     Some (ParserError ''TTF: invalid magic of font header'') \<and>
   snd (parseFontHeader [0, 1, 0, 0, 0, 1, 0, 0, 0, 0, 0, 0, 0x5F, 0x0F, 0x3C, 0xF5, 0, 0, 0, 64]) =
     None"
  using parseFontHeader_magic
      [of "[0, 1, 0, 0, 0, 1, 0, 0, 0, 0, 0, 0, 0x5F, 0x0F, 0x3C, 0xF4, 0, 0, 0, 64]"]
  by (simp add: magic_value unit_per_em_value readBytes_def parseFontHeader_def
      font_header_magic_def be_nat_def)

text \<open>
  C5. \<^verbatim>\<open>parseFontHeader\<close> stops with the error of the units per em exactly when the magic
  is the expected one and the value of \<^verbatim>\<open>unit_per_em\<close> can be read and lies outside the
  range from 16 to 16384, both ends included. It stops right after that field: the last
  field produced is \<^verbatim>\<open>unit_per_em\<close>, the twenty-second.
\<close>

theorem parseFontHeader_unit_per_em:
  "(snd (parseFontHeader s) = Some (ParserError ''TTF: Invalid unit/em value'') \<longleftrightarrow>
      bytes_value s font_header_fields1 ''magic'' = Inr [0x5F, 0x0F, 0x3C, 0xF5] \<and>
      (\<exists>u. uint_value s (font_header_fields1 @ font_header_fields2) ''unit_per_em'' = Inr u \<and>
           (u < 16 \<or> 16384 < u))) \<and>
   (snd (parseFontHeader s) = Some (ParserError ''TTF: Invalid unit/em value'') \<longrightarrow>
      fst (parseFontHeader s) =
        yields font_header_fields2 (yields font_header_fields1 empty_fieldset))"
  by (auto simp: parseFontHeader_def Let_def magic_value unit_per_em_value readBytes_def
      font_header_magic_def split: sum.splits)

lemma font_header_last2:
  "length (children (yields font_header_fields2 (yields font_header_fields1 empty_fieldset))) = 22 \<and>
   name (last (children (yields font_header_fields2 (yields font_header_fields1 empty_fieldset)))) =
     ''unit_per_em''"
  by (simp add: font_header_fields1_def font_header_fields2_def empty_fieldset_def yield_def
      unique_name_def mk_field_def)

theorem parseFontHeader_unit_per_em_witness:
  "snd (parseFontHeader [0, 1, 0, 0, 0, 1, 0, 0, 0, 0, 0, 0, 0x5F, 0x0F, 0x3C, 0xF5, 0, 0, 0, 15]) =
     Some (ParserError ''TTF: Invalid unit/em value'') \<and>
   snd (parseFontHeader [0, 1, 0, 0, 0, 1, 0, 0, 0, 0, 0, 0, 0x5F, 0x0F, 0x3C, 0xF5, 0, 0, 0, 16]) =
     None \<and>
   snd (parseFontHeader [0, 1, 0, 0, 0, 1, 0, 0, 0, 0, 0, 0, 0x5F, 0x0F, 0x3C, 0xF5, 0, 0, 0x40, 0]) =
     None \<and>
   snd (parseFontHeader [0, 1, 0, 0, 0, 1, 0, 0, 0, 0, 0, 0, 0x5F, 0x0F, 0x3C, 0xF5, 0, 0, 0x40, 1]) =
     Some (ParserError ''TTF: Invalid unit/em value'') \<and>
   be_nat [0x40, 0] = 16384 \<and> be_nat [0x40, 1] = 16385"
  using parseFontHeader_unit_per_em
      [of "[0, 1, 0, 0, 0, 1, 0, 0, 0, 0, 0, 0, 0x5F, 0x0F, 0x3C, 0xF5, 0, 0, 0, 15]"]
    parseFontHeader_unit_per_em
      [of "[0, 1, 0, 0, 0, 1, 0, 0, 0, 0, 0, 0, 0x5F, 0x0F, 0x3C, 0xF5, 0, 0, 0x40, 1]"]
  by (simp add: magic_value unit_per_em_value readBytes_def parseFontHeader_def
      font_header_magic_def be_nat_def)

section \<open>Yielding and seeking\<close>

lemma children_yield:
  "children (yield f st) = children st @ [f\<lparr>name := unique_name (children st) (name f)\<rparr>]"
  by (simp add: yield_def)


lemma log_yield: "log (yield f st) = log st"
  by (simp add: yield_def)

lemma shape_rename: "shape (f\<lparr>name := n\<rparr>) = shape f"
  by (simp add: shape_def)

lemma bound_tables_append: "bound_tables (xs @ ys) = bound_tables xs @ bound_tables ys"
  by (simp add: bound_tables_def map_filter_def)

lemma bound_tables_yield:
  "bound_tables (children (yield f st)) =
     bound_tables (children st) @
       (case table f of Some t \<Rightarrow> [(t, size_bits f)] | None \<Rightarrow> [])"
  by (simp add: children_yield bound_tables_append) (simp add: bound_tables_def map_filter_def split: option.splits)


lemma bound_tables_yield_Table:
  "bound_tables (children (yield (Table_init n t b) st)) = bound_tables (children st) @ [(t, b)]"
  by (simp add: bound_tables_yield Table_init_def)


section \<open>The second loop of the root parser\<close>
















lemma sample_cursor: "current_size (fst (read_directory sample_font)) = 480"
  by code_simp







section \<open>The second loop of the name table\<close>

lemma names_base_value:
  "uint_value s names_header_fields ''offset'' =
     (case readBytes s 4 2 of Inl e \<Rightarrow> Inl e | Inr bs \<Rightarrow> Inr (be_nat bs))"
  by (simp add: uint_value_def bytes_value_def names_header_fields_def mk_field_def)














lemma sample_names_entries:
  "snd (read_entries (sample_names 0) 2 (yields names_header_fields empty_fieldset) []) =
     Inr [sample_entry ''header[0]'', sample_entry ''header[1]''] \<and>
   snd (read_entries (sample_names 30) 2 (yields names_header_fields empty_fieldset) []) =
     Inr [sample_entry ''header[0]'', sample_entry ''header[1]'']"
  by code_simp













end
